theory Spec2Isabelle
  imports Complex_Main
begin

section \<open>The face-landmarks functions of the conference client\<close>

text \<open>
  A shallow embedding of \<^verbatim>\<open>react/features/face-landmarks/functions.ts\<close>.
  Every exported function of that file is translated into a HOL function of the same name.
  What the TypeScript does besides computing a value is made explicit:
  \<^item> a call of a collaborator that the file does not own (the conference object, the worker,
    the image capture, \<^verbatim>\<open>fetch\<close>, the logger, the canvas) is appended to a trace of events,
    in program order;
  \<^item> a collaborator that may throw supplies its outcome as a value of \<open>error + 'a\<close>;
  \<^item> a function returns a pair: its outcome (\<open>Inl\<close> for an exception that leaves the
    function, which for an \<^verbatim>\<open>async\<close> function is a rejected promise) and its trace.
\<close>

subsection \<open>JavaScript values\<close>

text \<open>
  An optional value (\<^verbatim>\<open>undefined\<close>, \<^verbatim>\<open>null\<close>) is \<open>None\<close>.

  A number is an IEEE 754 double. A finite double other than \<^verbatim>\<open>-0\<close> is represented by its
  exact value, a rational \<open>m \<cdot> 2\<^sup>e\<close> with \<open>\<bar>m\<bar> < 2\<^sup>5\<^sup>3\<close> and \<open>-1074 \<le> e \<le> 971\<close>; the other
  doubles are constructors of their own.
\<close>

datatype number = Finite rat | NegZero | Infinity | NegInfinity | NaN

definition pow :: "int \<Rightarrow> int \<Rightarrow> rat" where
  "pow b e = (if 0 \<le> e then of_int b ^ nat e else 1 / of_int b ^ nat (- e))"

text \<open>The number of digits of \<open>n\<close> in base \<open>b\<close>; none for \<open>n \<le> 0\<close>.\<close>

function count_digits :: "int \<Rightarrow> int \<Rightarrow> nat" where
  "count_digits b n = (if n \<le> 0 \<or> b < 2 then 0 else Suc (count_digits b (n div b)))"
  by pat_completeness auto
termination
  by (relation "measure (\<lambda>(b, n). nat n)") (auto simp add: int_div_less_self)

declare count_digits.simps [simp del]

text \<open>For \<open>a > 0\<close>, the integer \<open>l\<close> with \<open>b\<^sup>l \<le> a < b\<^sup>l\<^sup>+\<^sup>1\<close>.\<close>

definition floor_log :: "int \<Rightarrow> rat \<Rightarrow> int" where
  "floor_log b a =
     (if 1 \<le> a then int (count_digits b \<lfloor>a\<rfloor>) - 1
      else - int (count_digits b (\<lceil>1 / a\<rceil> - 1)))"

definition round_half_even :: "rat \<Rightarrow> int" where
  "round_half_even q =
     (let f = \<lfloor>q\<rfloor>; d = q - of_int f
      in if d < 1 / 2 then f
         else if 1 / 2 < d then f + 1
         else if even f then f else f + 1)"

text \<open>
  Rounding of an exact result to the nearest double, ties to the even significand. The
  significand \<open>m\<close> has 53 bits, fewer below \<open>2\<^sup>-\<^sup>1\<^sup>0\<^sup>2\<^sup>2\<close> where the exponent stays at
  \<open>-1074\<close>; a rounded magnitude of \<open>2\<^sup>1\<^sup>0\<^sup>2\<^sup>4\<close> or more is an infinity, and a significand
  rounded to nothing is a zero with the sign of the exact result.
\<close>

definition to_double :: "rat \<Rightarrow> number" where
  "to_double x =
     (if x = 0 then Finite 0
      else (let a = \<bar>x\<bar>;
                e = max (floor_log 2 a - 52) (- 1074);
                m = round_half_even (a / pow 2 e);
                v = of_int m * pow 2 e
            in if 971 < e \<or> (e = 971 \<and> m = 2 ^ 53)
               then (if x < 0 then NegInfinity else Infinity)
               else if m = 0 then (if x < 0 then NegZero else Finite 0)
               else Finite (if x < 0 then - v else v)))"

text \<open>The values of the type that stand for a double.\<close>

definition is_double :: "number \<Rightarrow> bool" where
  "is_double x = (case x of Finite q \<Rightarrow> to_double q = Finite q | _ \<Rightarrow> True)"

definition is_negative :: "number \<Rightarrow> bool" where
  "is_negative x =
     (case x of Finite q \<Rightarrow> q < 0 | NegZero \<Rightarrow> True | NegInfinity \<Rightarrow> True | _ \<Rightarrow> False)"

definition is_zero :: "number \<Rightarrow> bool" where
  "is_zero x = (x = Finite 0 \<or> x = NegZero)"

definition is_infinite :: "number \<Rightarrow> bool" where
  "is_infinite x = (x = Infinity \<or> x = NegInfinity)"

definition value_of :: "number \<Rightarrow> rat" where
  "value_of x = (case x of Finite q \<Rightarrow> q | _ \<Rightarrow> 0)"

definition signed_zero :: "bool \<Rightarrow> number" where
  "signed_zero negative = (if negative then NegZero else Finite 0)"

definition signed_infinity :: "bool \<Rightarrow> number" where
  "signed_infinity negative = (if negative then NegInfinity else Infinity)"

text \<open>
  The operators \<^verbatim>\<open>-\<close>, \<^verbatim>\<open>*\<close> and \<^verbatim>\<open>/\<close> on numbers: the special cases of IEEE 754, and
  otherwise the exact result, rounded. A difference is the sum with the negated subtrahend; an
  exact sum of zero is \<^verbatim>\<open>+0\<close>, except that \<^verbatim>\<open>-0 + -0\<close> is \<^verbatim>\<open>-0\<close>.
\<close>

definition js_negate :: "number \<Rightarrow> number" where
  "js_negate x =
     (case x of
        Finite q \<Rightarrow> (if q = 0 then NegZero else Finite (- q))
      | NegZero \<Rightarrow> Finite 0
      | Infinity \<Rightarrow> NegInfinity
      | NegInfinity \<Rightarrow> Infinity
      | NaN \<Rightarrow> NaN)"

definition js_add :: "number \<Rightarrow> number \<Rightarrow> number" where
  "js_add x y =
     (if x = NaN \<or> y = NaN then NaN
      else if is_infinite x \<and> is_infinite y then (if x = y then x else NaN)
      else if is_infinite x then x
      else if is_infinite y then y
      else if is_zero x \<and> is_zero y then signed_zero (x = NegZero \<and> y = NegZero)
      else if is_zero x then y
      else if is_zero y then x
      else to_double (value_of x + value_of y))"

definition js_subtract :: "number \<Rightarrow> number \<Rightarrow> number" where
  "js_subtract x y = js_add x (js_negate y)"

definition js_multiply :: "number \<Rightarrow> number \<Rightarrow> number" where
  "js_multiply x y =
     (let negative = (is_negative x \<noteq> is_negative y)
      in if x = NaN \<or> y = NaN then NaN
         else if is_infinite x \<or> is_infinite y
           then (if is_zero x \<or> is_zero y then NaN else signed_infinity negative)
         else if is_zero x \<or> is_zero y then signed_zero negative
         else to_double (value_of x * value_of y))"

definition js_divide :: "number \<Rightarrow> number \<Rightarrow> number" where
  "js_divide x y =
     (let negative = (is_negative x \<noteq> is_negative y)
      in if x = NaN \<or> y = NaN then NaN
         else if is_infinite x then (if is_infinite y then NaN else signed_infinity negative)
         else if is_infinite y then signed_zero negative
         else if is_zero y then (if is_zero x then NaN else signed_infinity negative)
         else if is_zero x then signed_zero negative
         else to_double (value_of x / value_of y))"

text \<open>
  Truthiness, as \<^verbatim>\<open>if (x)\<close>, \<^verbatim>\<open>x && y\<close>, \<^verbatim>\<open>x || y\<close> and \<^verbatim>\<open>x ? a : b\<close> test it: of the
  numbers, both zeros and \<^verbatim>\<open>NaN\<close> are falsy; of the strings, the empty one.
\<close>

definition truthy_number :: "number option \<Rightarrow> bool" where
  "truthy_number v =
     (case v of None \<Rightarrow> False | Some x \<Rightarrow> x \<noteq> Finite 0 \<and> x \<noteq> NegZero \<and> x \<noteq> NaN)"

definition truthy_string :: "string option \<Rightarrow> bool" where
  "truthy_string v = (case v of None \<Rightarrow> False | Some s \<Rightarrow> s \<noteq> '''')"

text \<open>
  The conversion of a number to a string inside a template literal, which is
  \<^verbatim>\<open>Number::toString\<close> of ECMAScript with radix 10. For a positive \<open>x\<close> it takes the
  integers \<open>n\<close>, \<open>k\<close> and \<open>s\<close> with \<open>k\<close> digits in \<open>s\<close> such that \<open>s \<cdot> 10\<^sup>n\<^sup>-\<^sup>k\<close> rounds to \<open>x\<close>
  and \<open>k\<close> is as small as possible; of two such \<open>s\<close> the one nearer to \<open>x\<close>, and the even one
  if both are as near. The digits of \<open>s\<close> are then laid out by \<open>n\<close>: as an integer, with a
  decimal point, with leading zeros after \<^verbatim>\<open>0.\<close>, or with an exponent.
\<close>

definition digit_char :: "nat \<Rightarrow> char" where
  "digit_char d = ''0123456789'' ! d"

function digits_of :: "int \<Rightarrow> string" where
  "digits_of n =
     (if n < 10 then [digit_char (nat n)]
      else digits_of (n div 10) @ [digit_char (nat (n mod 10))])"
  by pat_completeness auto
termination
  by (relation "measure nat") auto

declare digits_of.simps [simp del]

text \<open>
  With \<open>10\<^sup>n\<^sup>0\<^sup>-\<^sup>1 \<le> x < 10\<^sup>n\<^sup>0\<close>: the two neighbours of \<open>x\<close> among the multiples of
  \<open>10\<^sup>n\<^sup>0\<^sup>-\<^sup>k\<close>, which are the numbers of \<open>k\<close> digits next to \<open>x\<close>, and the one of them that
  rounds to \<open>x\<close>, if any.
\<close>

definition candidate :: "rat \<Rightarrow> int \<Rightarrow> nat \<Rightarrow> int option" where
  "candidate x n0 k =
     (let g = pow 10 (n0 - int k);
          lo = \<lfloor>x / g\<rfloor>;
          hi = lo + 1;
          ok_lo = (to_double (of_int lo * g) = Finite x);
          ok_hi = (to_double (of_int hi * g) = Finite x);
          d_lo = x - of_int lo * g;
          d_hi = of_int hi * g - x
      in if ok_lo \<and> ok_hi
         then (if d_lo < d_hi then Some lo else if d_hi < d_lo then Some hi
               else if even lo then Some lo else Some hi)
         else if ok_lo then Some lo
         else if ok_hi then Some hi
         else None)"

text \<open>
  The search for the least \<open>k\<close>, from \<open>k\<close> upwards; the result is \<open>(s, n)\<close>. Seventeen digits
  tell any two doubles apart, so the search ends there with the nearest number of that
  length. An upper neighbour \<open>10\<^sup>k\<close> is the single digit 1 with \<open>n\<close> one larger.
\<close>

fun shortest :: "nat \<Rightarrow> rat \<Rightarrow> int \<Rightarrow> nat \<Rightarrow> int \<times> int" where
  "shortest 0 x n0 k = (round_half_even (x / pow 10 (n0 - int k)), n0)"
| "shortest (Suc fuel) x n0 k =
     (case candidate x n0 k of
        Some s \<Rightarrow> (if s = 10 ^ k then (1, n0 + 1) else (s, n0))
      | None \<Rightarrow> shortest fuel x n0 (Suc k))"

definition exponent_string :: "int \<Rightarrow> string" where
  "exponent_string e = (if e < 0 then ''-'' else ''+'') @ digits_of \<bar>e\<bar>"

definition positive_to_string :: "rat \<Rightarrow> string" where
  "positive_to_string x =
     (let (s, n) = shortest 16 x (floor_log 10 x + 1) 1;
          digits = digits_of s;
          k = int (length digits)
      in if k \<le> n \<and> n \<le> 21 then digits @ replicate (nat (n - k)) CHR ''0''
         else if 0 < n \<and> n \<le> 21 then take (nat n) digits @ ''.'' @ drop (nat n) digits
         else if - 6 < n \<and> n \<le> 0 then ''0.'' @ replicate (nat (- n)) CHR ''0'' @ digits
         else if k = 1 then digits @ ''e'' @ exponent_string (n - 1)
         else take 1 digits @ ''.'' @ drop 1 digits @ ''e'' @ exponent_string (n - 1))"

definition number_to_string :: "number \<Rightarrow> string" where
  "number_to_string x =
     (case x of
        NaN \<Rightarrow> ''NaN''
      | NegZero \<Rightarrow> ''0''
      | Infinity \<Rightarrow> ''Infinity''
      | NegInfinity \<Rightarrow> ''-Infinity''
      | Finite q \<Rightarrow>
          (if q = 0 then ''0''
           else if q < 0 then ''-'' @ positive_to_string (- q)
           else positive_to_string q))"

text \<open>
  \<^verbatim>\<open>Math.max(x, ...rest)\<close> with at least one argument: \<^verbatim>\<open>NaN\<close> if an argument is
  \<^verbatim>\<open>NaN\<close>, else the largest, where \<^verbatim>\<open>+0\<close> counts as larger than \<^verbatim>\<open>-0\<close>.
\<close>

definition js_max :: "number \<Rightarrow> number \<Rightarrow> number" where
  "js_max x y =
     (if x = NaN \<or> y = NaN then NaN
      else if x = Infinity \<or> y = Infinity then Infinity
      else if x = NegInfinity then y
      else if y = NegInfinity then x
      else if value_of x < value_of y then y
      else if value_of y < value_of x then x
      else if x = NegZero then y else x)"

definition Math_max :: "number \<Rightarrow> number list \<Rightarrow> number" where
  "Math_max x rest = fold js_max rest x"

text \<open>A thrown value. Reading a property of \<^verbatim>\<open>undefined\<close> or \<^verbatim>\<open>null\<close> throws a TypeError.\<close>

datatype error = TypeError | Thrown string

text \<open>
  A value that is only stored or passed on: a buffered expression, a field of the request
  body, an argument of the logger.
\<close>

datatype js_value =
    Undefined
  | Str string
  | Num number
  | Err error
  | Obj "(string \<times> js_value) list"
  | Arr "js_value list"

definition optional_string :: "string option \<Rightarrow> js_value" where
  "optional_string v = (case v of None \<Rightarrow> Undefined | Some s \<Rightarrow> Str s)"

subsection \<open>Constants of the feature\<close>

text \<open>
  \<^verbatim>\<open>./constants\<close> is imported by the file and not part of it; the three constants it uses
  are parameters of the model.
\<close>

record constants =
  DETECT_FACE :: string
  FACE_BOX_EVENT_TYPE :: string
  SEND_IMAGE_INTERVAL_MS :: number

subsection \<open>The application state\<close>

record FaceBox =
  left :: "number option"
  right :: "number option"
  width :: "number option"

datatype EndpointMessage =
    FaceExpressionMessage string string number
  | FaceBoxMessage string FaceBox

datatype FaceLandmarksReport = FaceLandmarksReport string number

text \<open>
  The conference object: its two send primitives answer a call with \<open>Inr ()\<close> or throw.
\<close>

record Conference =
  sendEndpointMessage :: "string \<Rightarrow> EndpointMessage \<Rightarrow> error + unit"
  sendFaceLandmarks :: "FaceLandmarksReport \<Rightarrow> error + unit"
  sessionId :: "string option"

record Connection =
  getJid :: "string option"

record Participant =
  jwtId :: "string option"
  name :: "string option"

record FaceLandmarksConfig =
  captureInterval :: "number option"

record Config =
  webhookProxyUrl :: "string option"
  faceLandmarks :: "FaceLandmarksConfig option"

text \<open>
  The slice \<^verbatim>\<open>features/face-landmarks\<close>. The type of a buffered expression is declared
  outside the file, and the file never looks inside one: it is any value.
\<close>

record FaceLandmarksState =
  faceExpressionsBuffer :: "js_value list"
  faceBoxes :: "string \<rightharpoonup> FaceBox"

text \<open>
  The slices of the redux state that the file reads, one field for each
  \<^verbatim>\<open>state['features/...']\<close>; a slice of which one property is read is that property.
\<close>

record IState =
  features_base_config :: Config
  features_base_conference :: "Conference option"
  features_base_jwt :: "string option"
  features_base_connection :: "Connection option"
  features_face_landmarks :: FaceLandmarksState

subsection \<open>The display helpers\<close>

definition getFaceBoxForId :: "string \<Rightarrow> IState \<Rightarrow> FaceBox option" where
  "getFaceBoxForId pid state = faceBoxes (features_face_landmarks state) pid"

text \<open>
  \<^verbatim>\<open>const faceBox = id && getFaceBoxForId(id, state)\<close>: a missing or empty \<^verbatim>\<open>id\<close> leaves
  \<^verbatim>\<open>faceBox\<close> falsy. A stored box is an object, hence truthy.
\<close>

definition getVideoObjectPosition :: "IState \<Rightarrow> string option \<Rightarrow> string" where
  "getVideoObjectPosition state id_arg =
     (let faceBox = (if truthy_string id_arg then getFaceBoxForId (the id_arg) state else None)
      in case faceBox of
           Some fb \<Rightarrow>
             (if truthy_number (right fb) \<and> truthy_number (width fb)
              then number_to_string
                     (js_subtract (the (right fb)) (js_divide (the (width fb)) (Finite 2)))
                   @ ''% 50%''
              else ''50% 50%'')
         | None \<Rightarrow> ''50% 50%'')"

text \<open>
  \<^verbatim>\<open>Math.max(faceLandmarks?.captureInterval || SEND_IMAGE_INTERVAL_MS)\<close>: the operator
  \<^verbatim>\<open>||\<close> chooses one number, and \<^verbatim>\<open>Math.max\<close> receives that number alone.
\<close>

definition getDetectionInterval :: "constants \<Rightarrow> IState \<Rightarrow> number" where
  "getDetectionInterval k state =
     (let faceLandmarks = faceLandmarks (features_base_config state);
          configured = (case faceLandmarks of None \<Rightarrow> None | Some fl \<Rightarrow> captureInterval fl)
      in Math_max (if truthy_number configured then the configured
                   else SEND_IMAGE_INTERVAL_MS k) [])"

definition getFaceExpressionDuration :: "constants \<Rightarrow> IState \<Rightarrow> number \<Rightarrow> number" where
  "getFaceExpressionDuration k state faceExpressionCount =
     js_multiply faceExpressionCount (js_divide (getDetectionInterval k state) (Finite 1000))"

subsection \<open>Collaborators, events and traced computations\<close>

text \<open>
  The argument of \<^verbatim>\<open>fetch\<close>. The field \<open>body\<close> holds the object literal that the file
  passes to \<^verbatim>\<open>JSON.stringify\<close>, key by key in the order of the source; \<open>http_method\<close>
  is the option \<^verbatim>\<open>method\<close>. On the values of \<open>js_value\<close>, which are finite trees,
  \<^verbatim>\<open>JSON.stringify\<close> does not throw.
\<close>

record Request =
  url :: string
  http_method :: string
  headers :: "(string \<times> string) list"
  body :: "(string \<times> js_value) list"

text \<open>
  The answer of \<^verbatim>\<open>fetch\<close>: \<open>ok\<close> is the flag by which the response itself tells a
  success status from any other.
\<close>

record Response =
  ok :: bool
  status :: number

datatype ImageBitmap = ImageBitmap (bitmap_width: number) (bitmap_height: number)

text \<open>
  The pixels that \<^verbatim>\<open>getImageData(sx, sy, sw, sh)\<close> reads from the canvas on which the
  bitmap was drawn before.
\<close>

datatype ImageData =
  ImageData (drawn: ImageBitmap) (sx: number) (sy: number) (sw: number) (sh: number)

datatype image = Bitmap ImageBitmap | Pixels ImageData

datatype WorkerMessage =
  WorkerMessage (message_type: string) (message_image: "image option") (message_threshold: number)

record Worker =
  postMessage :: "WorkerMessage \<Rightarrow> error + unit"

record ImageCapture =
  grabFrame :: "error + ImageBitmap"

datatype CanvasRenderingContext2D = CanvasRenderingContext2D

text \<open>
  The module-level variable \<^verbatim>\<open>context\<close> (here \<open>context2d\<close>) after the module has been
  loaded, and whether the canvas was created at all. \<open>getContext_result\<close> is
  what \<^verbatim>\<open>canvas.getContext('2d')\<close> answers, which may be \<^verbatim>\<open>null\<close>; where
  \<^verbatim>\<open>OffscreenCanvas\<close> exists, neither variable is assigned.
\<close>

record Module =
  OffscreenCanvas_undefined :: bool
  context2d :: "CanvasRenderingContext2D option"

definition module_init :: "bool \<Rightarrow> CanvasRenderingContext2D option \<Rightarrow> Module" where
  "module_init offscreen_undefined getContext_result =
     \<lparr>OffscreenCanvas_undefined = offscreen_undefined,
      context2d = (if offscreen_undefined then getContext_result else None)\<rparr>"

text \<open>
  What the webhook function reads outside the state. \<^verbatim>\<open>Date.now()\<close> answers the time of
  the call plus the time that has passed since, which is not negative; both are whole
  milliseconds.
\<close>

record WebhookEnv =
  getLocalParticipant :: "IState \<Rightarrow> Participant option"
  extractFqnFromPath :: string
  call_time :: nat
  elapsed :: nat
  fetch :: "Request \<Rightarrow> error + Response"

definition Date_now :: "WebhookEnv \<Rightarrow> number" where
  "Date_now env = Finite (of_nat (call_time env + elapsed env))"

datatype event =
    ConferenceSendEndpointMessage string EndpointMessage
  | ConferenceSendFaceLandmarks FaceLandmarksReport
  | LoggerWarn "js_value list"
  | LoggerError "js_value list"
  | ConnectionGetJid
  | GetLocalParticipant
  | ExtractFqnFromPath
  | DateNow
  | Fetch Request
  | GrabFrame
  | CanvasSetWidth number
  | CanvasSetHeight number
  | DrawImage ImageBitmap number number
  | GetImageData number number number number
  | PostMessage WorkerMessage
  | BitmapClose ImageBitmap

text \<open>
  A traced computation: the value it returns or the error it throws, and the events up to
  that point.
\<close>

type_synonym 'a traced = "(error + 'a) \<times> event list"

definition ret :: "'a \<Rightarrow> 'a traced" where
  "ret v = (Inr v, [])"

definition throw :: "error \<Rightarrow> 'a traced" where
  "throw e = (Inl e, [])"

text \<open>A call of a collaborator: the event, and the outcome the collaborator gives.\<close>

definition call :: "event \<Rightarrow> error + 'a \<Rightarrow> 'a traced" where
  "call ev outcome = (outcome, [ev])"

text \<open>Sequencing: an error of the first part skips the second.\<close>

definition bind :: "'a traced \<Rightarrow> ('a \<Rightarrow> 'b traced) \<Rightarrow> 'b traced" where
  "bind m f =
     (case m of
        (Inl e, tr) \<Rightarrow> (Inl e, tr)
      | (Inr v, tr) \<Rightarrow> (case f v of (r, tr') \<Rightarrow> (r, tr @ tr')))"

text \<open>\<^verbatim>\<open>try { m } catch (err) { h(err) }\<close>\<close>

definition try_catch :: "'a traced \<Rightarrow> (error \<Rightarrow> 'a traced) \<Rightarrow> 'a traced" where
  "try_catch m h =
     (case m of
        (Inl e, tr) \<Rightarrow> (case h e of (r, tr') \<Rightarrow> (r, tr @ tr'))
      | (Inr v, tr) \<Rightarrow> (Inr v, tr))"

definition logger_warn :: "js_value list \<Rightarrow> unit traced" where
  "logger_warn args = call (LoggerWarn args) (Inr ())"

definition logger_error :: "js_value list \<Rightarrow> unit traced" where
  "logger_error args = call (LoggerError args) (Inr ())"

text \<open>
  A method call on the conference argument, which has the type \<^verbatim>\<open>any\<close>: on
  \<^verbatim>\<open>undefined\<close> or \<^verbatim>\<open>null\<close> the property access throws before anything is sent.
\<close>

definition conference_sendEndpointMessage ::
    "Conference option \<Rightarrow> string \<Rightarrow> EndpointMessage \<Rightarrow> unit traced" where
  "conference_sendEndpointMessage conference to msg =
     (case conference of
        None \<Rightarrow> throw TypeError
      | Some c \<Rightarrow> call (ConferenceSendEndpointMessage to msg) (sendEndpointMessage c to msg))"

definition conference_sendFaceLandmarks ::
    "Conference option \<Rightarrow> FaceLandmarksReport \<Rightarrow> unit traced" where
  "conference_sendFaceLandmarks conference report =
     (case conference of
        None \<Rightarrow> throw TypeError
      | Some c \<Rightarrow> call (ConferenceSendFaceLandmarks report) (sendFaceLandmarks c report))"

subsection \<open>Sending to the participants and to the server\<close>

definition sendFaceExpressionToParticipants ::
    "Conference option \<Rightarrow> string \<Rightarrow> number \<Rightarrow> unit traced" where
  "sendFaceExpressionToParticipants conference faceExpression duration =
     try_catch
       (conference_sendEndpointMessage conference ''''
          (FaceExpressionMessage ''face_landmark'' faceExpression duration))
       (\<lambda>err. logger_warn
          [Str ''Could not broadcast the face expression to the other participants'', Err err])"

definition sendFaceBoxToParticipants ::
    "constants \<Rightarrow> Conference option \<Rightarrow> FaceBox \<Rightarrow> unit traced" where
  "sendFaceBoxToParticipants k conference faceBox =
     try_catch
       (conference_sendEndpointMessage conference ''''
          (FaceBoxMessage (FACE_BOX_EVENT_TYPE k) faceBox))
       (\<lambda>err. logger_warn
          [Str ''Could not broadcast the face box to the other participants'', Err err])"

definition sendFaceExpressionToServer ::
    "Conference option \<Rightarrow> string \<Rightarrow> number \<Rightarrow> unit traced" where
  "sendFaceExpressionToServer conference faceExpression duration =
     try_catch
       (conference_sendFaceLandmarks conference (FaceLandmarksReport faceExpression duration))
       (\<lambda>err. logger_warn
          [Str ''Could not send the face expression to xmpp server'', Err err])"

subsection \<open>Sending to the webhook\<close>

text \<open>\<^verbatim>\<open>connection?.getJid()\<close>\<close>

definition connection_getJid :: "Connection option \<Rightarrow> string option traced" where
  "connection_getJid connection =
     (case connection of
        None \<Rightarrow> ret None
      | Some c \<Rightarrow> call ConnectionGetJid (Inr (getJid c)))"

text \<open>\<^verbatim>\<open>conference?.sessionId\<close>, \<^verbatim>\<open>localParticipant?.jwtId\<close>, \<^verbatim>\<open>localParticipant?.name\<close>\<close>

definition optional_chain :: "'a option \<Rightarrow> ('a \<Rightarrow> 'b option) \<Rightarrow> 'b option" where
  "optional_chain obj field = (case obj of None \<Rightarrow> None | Some x \<Rightarrow> field x)"

text \<open>
  The \<^verbatim>\<open>try\<close> block and its handler give \<open>Some r\<close> where the source executes
  \<^verbatim>\<open>return r\<close> inside them and \<open>None\<close> where control falls through to the final
  \<^verbatim>\<open>return false\<close>.
\<close>

definition sendFaceExpressionsWebhook :: "WebhookEnv \<Rightarrow> IState \<Rightarrow> bool traced" where
  "sendFaceExpressionsWebhook env state =
     (let url' = webhookProxyUrl (features_base_config state);
          conference = features_base_conference state;
          jwt = features_base_jwt state;
          connection = features_base_connection state
      in bind (connection_getJid connection) (\<lambda>jid.
         bind (call GetLocalParticipant (Inr (getLocalParticipant env state))) (\<lambda>localParticipant.
         let buffer = faceExpressionsBuffer (features_face_landmarks state)
         in if length buffer = 0 then ret False
            else
              (let headers' =
                     (if truthy_string jwt then [(''Authorization'', ''Bearer '' @ the jwt)] else [])
                     @ [(''Content-Type'', ''application/json'')]
               in bind (call ExtractFqnFromPath (Inr (extractFqnFromPath env))) (\<lambda>meetingFqn.
                  bind (call DateNow (Inr (Date_now env))) (\<lambda>submitted.
                  let reqBody =
                        [(''meetingFqn'', Str meetingFqn),
                         (''sessionId'', optional_string (optional_chain conference sessionId)),
                         (''submitted'', Num submitted),
                         (''emotions'', Arr buffer),
                         (''participantId'', optional_string (optional_chain localParticipant jwtId)),
                         (''participantName'', optional_string (optional_chain localParticipant name)),
                         (''participantJid'', optional_string jid)]
                  in bind (if truthy_string url'
                           then (let request =
                                       \<lparr>url = the url' @ ''/emotions'', http_method = ''POST'',
                                        headers = headers', body = reqBody\<rparr>
                                 in try_catch
                                      (bind (call (Fetch request) (fetch env request)) (\<lambda>res.
                                         if ok res then ret (Some True)
                                         else bind (logger_error
                                                      [Str ''Status error:'', Num (status res)])
                                                (\<lambda>_. ret None)))
                                      (\<lambda>err. bind (logger_error
                                                     [Str ''Could not send request'', Err err])
                                                (\<lambda>_. ret None)))
                           else ret None)
                       (\<lambda>returned. case returned of Some r \<Rightarrow> ret r | None \<Rightarrow> ret False)))))))"

subsection \<open>Sending a frame to the worker\<close>

text \<open>\<^verbatim>\<open>context?.drawImage(imageBitmap, dx, dy)\<close>\<close>

definition context_drawImage ::
    "CanvasRenderingContext2D option \<Rightarrow> ImageBitmap \<Rightarrow> number \<Rightarrow> number \<Rightarrow> unit traced" where
  "context_drawImage ctx imageBitmap dx dy =
     (case ctx of
        None \<Rightarrow> ret ()
      | Some _ \<Rightarrow> call (DrawImage imageBitmap dx dy) (Inr ()))"

text \<open>
  \<^verbatim>\<open>context?.getImageData(sx, sy, sw, sh)\<close>; the first argument of the model is what the
  canvas shows.
\<close>

definition context_getImageData ::
    "ImageBitmap \<Rightarrow> CanvasRenderingContext2D option \<Rightarrow> number \<Rightarrow> number \<Rightarrow> number \<Rightarrow> number
       \<Rightarrow> image option traced" where
  "context_getImageData shown ctx x y w h =
     (case ctx of
        None \<Rightarrow> ret None
      | Some _ \<Rightarrow> call (GetImageData x y w h) (Inr (Some (Pixels (ImageData shown x y w h)))))"

text \<open>
  The parameter \<^verbatim>\<open>threshold = 10\<close> is \<open>None\<close> where the caller leaves it out. The
  \<^verbatim>\<open>try\<close> block around \<^verbatim>\<open>grabFrame\<close> gives \<open>Some bitmap\<close>, its handler, which ends in
  \<^verbatim>\<open>return false\<close>, gives \<open>None\<close>. The calls \<^verbatim>\<open>worker.postMessage\<close> and
  \<^verbatim>\<open>imageBitmap.close\<close> stand outside every \<^verbatim>\<open>try\<close> block.
\<close>

definition sendDataToWorker ::
    "constants \<Rightarrow> Module \<Rightarrow> Worker \<Rightarrow> ImageCapture option \<Rightarrow> number option \<Rightarrow> bool traced" where
  "sendDataToWorker k m worker imageCapture threshold_arg =
     (let threshold = (case threshold_arg of None \<Rightarrow> Finite 10 | Some t \<Rightarrow> t)
      in case imageCapture of
           None \<Rightarrow> ret False
         | Some ic \<Rightarrow>
             bind (try_catch
                     (bind (call GrabFrame (grabFrame ic)) (\<lambda>b. ret (Some b)))
                     (\<lambda>err. bind (logger_warn [Err err]) (\<lambda>_. ret None)))
               (\<lambda>grabbed. case grabbed of
                  None \<Rightarrow> ret False
                | Some imageBitmap \<Rightarrow>
                    bind (if OffscreenCanvas_undefined m
                          then bind (call (CanvasSetWidth (bitmap_width imageBitmap)) (Inr ())) (\<lambda>_.
                               bind (call (CanvasSetHeight (bitmap_height imageBitmap)) (Inr ())) (\<lambda>_.
                               bind (context_drawImage (context2d m) imageBitmap (Finite 0) (Finite 0)) (\<lambda>_.
                               context_getImageData imageBitmap (context2d m) (Finite 0) (Finite 0)
                                 (bitmap_width imageBitmap) (bitmap_height imageBitmap))))
                          else ret (Some (Bitmap imageBitmap)))
                      (\<lambda>image.
                         let message = WorkerMessage (DETECT_FACE k) image threshold
                         in bind (call (PostMessage message) (postMessage worker message)) (\<lambda>_.
                            bind (call (BitmapClose imageBitmap) (Inr ())) (\<lambda>_.
                            ret True)))))"

subsection \<open>Reading a trace\<close>

fun requests :: "event list \<Rightarrow> Request list" where
  "requests [] = []"
| "requests (Fetch r # es) = r # requests es"
| "requests (_ # es) = requests es"

fun posted :: "event list \<Rightarrow> WorkerMessage list" where
  "posted [] = []"
| "posted (PostMessage msg # es) = msg # posted es"
| "posted (_ # es) = posted es"

fun closed :: "event list \<Rightarrow> ImageBitmap list" where
  "closed [] = []"
| "closed (BitmapClose b # es) = b # closed es"
| "closed (_ # es) = closed es"

fun warnings :: "event list \<Rightarrow> js_value list list" where
  "warnings [] = []"
| "warnings (LoggerWarn args # es) = args # warnings es"
| "warnings (_ # es) = warnings es"

fun errors :: "event list \<Rightarrow> js_value list list" where
  "errors [] = []"
| "errors (LoggerError args # es) = args # errors es"
| "errors (_ # es) = errors es"

subsection \<open>Concrete inputs\<close>

definition example_constants :: constants where
  "example_constants =
     \<lparr>DETECT_FACE = ''detect-face'', FACE_BOX_EVENT_TYPE = ''face-box'',
      SEND_IMAGE_INTERVAL_MS = Finite 1000\<rparr>"

definition example_state :: IState where
  "example_state =
     \<lparr>features_base_config = \<lparr>webhookProxyUrl = None, faceLandmarks = None\<rparr>,
      features_base_conference = None,
      features_base_jwt = None,
      features_base_connection = None,
      features_face_landmarks = \<lparr>faceExpressionsBuffer = [], faceBoxes = Map.empty\<rparr>\<rparr>"

definition example_bitmap :: ImageBitmap where
  "example_bitmap = ImageBitmap (Finite 640) (Finite 480)"

definition example_capture :: ImageCapture where
  "example_capture = \<lparr>grabFrame = Inr example_bitmap\<rparr>"

definition accepting_worker :: Worker where
  "accepting_worker = \<lparr>postMessage = (\<lambda>_. Inr ())\<rparr>"

definition failing_worker :: Worker where
  "failing_worker = \<lparr>postMessage = (\<lambda>_. Inl (Thrown ''DataCloneError''))\<rparr>"

definition failing_conference :: Conference where
  "failing_conference =
     \<lparr>sendEndpointMessage = (\<lambda>_ _. Inl (Thrown ''not connected'')),
      sendFaceLandmarks = (\<lambda>_. Inl (Thrown ''not connected'')),
      sessionId = None\<rparr>"

text \<open>
  The boxes \<open>e\<close> and \<open>f\<close> hold the doubles nearest to 0.3 and 0.2, and \<open>2\<^sup>-\<^sup>1\<^sup>9\<close>; the box
  \<open>g\<close> holds \<open>10\<^sup>2\<^sup>1\<close>.
\<close>

definition boxes_state :: IState where
  "boxes_state =
     example_state\<lparr>features_face_landmarks :=
       \<lparr>faceExpressionsBuffer = [],
        faceBoxes =
          [''a'' \<mapsto> \<lparr>left = None, right = Some (Finite 80), width = Some (Finite 20)\<rparr>,
           ''b'' \<mapsto> \<lparr>left = None, right = None, width = None\<rparr>,
           ''c'' \<mapsto> \<lparr>left = Some (Finite 0), right = Some (Finite 0), width = Some (Finite 20)\<rparr>,
           ''d'' \<mapsto> \<lparr>left = Some (Finite 65), right = Some (Finite 80), width = Some (Finite 15)\<rparr>,
           ''e'' \<mapsto> \<lparr>left = None,
                    right = Some (Finite (5404319552844595 / 18014398509481984)),
                    width = Some (Finite (3602879701896397 / 18014398509481984))\<rparr>,
           ''f'' \<mapsto> \<lparr>left = None, right = Some (Finite (1 / 524288)),
                    width = Some (Finite (1 / 524288))\<rparr>,
           ''g'' \<mapsto> \<lparr>left = None, right = Some (Finite 1000000000000000000000),
                    width = Some (Finite 2)\<rparr>]\<rparr>\<rparr>"

definition interval_state :: "number \<Rightarrow> IState" where
  "interval_state c =
     example_state\<lparr>features_base_config :=
       \<lparr>webhookProxyUrl = None, faceLandmarks = Some \<lparr>captureInterval = Some c\<rparr>\<rparr>\<rparr>"

definition example_env :: WebhookEnv where
  "example_env =
     \<lparr>getLocalParticipant = (\<lambda>_. Some \<lparr>jwtId = Some ''id-1'', name = Some ''Ann''\<rparr>),
      extractFqnFromPath = ''tenant/room'',
      call_time = 1000,
      elapsed = 2,
      fetch = (\<lambda>_. Inr \<lparr>ok = False, status = Finite 500\<rparr>)\<rparr>"

definition webhook_state :: IState where
  "webhook_state =
     \<lparr>features_base_config = \<lparr>webhookProxyUrl = Some ''https://hook'', faceLandmarks = None\<rparr>,
      features_base_conference = None,
      features_base_jwt = Some ''abc'',
      features_base_connection = Some \<lparr>getJid = Some ''ann@example''\<rparr>,
      features_face_landmarks =
        \<lparr>faceExpressionsBuffer = [Str ''happy'', Str ''sad''], faceBoxes = Map.empty\<rparr>\<rparr>"

definition example_request :: "(string \<times> string) list \<Rightarrow> Request" where
  "example_request hs =
     \<lparr>url = ''https://hook/emotions'', http_method = ''POST'', headers = hs,
      body =
        [(''meetingFqn'', Str ''tenant/room''), (''sessionId'', Undefined),
         (''submitted'', Num (Finite 1002)),
         (''emotions'', Arr [Str ''happy'', Str ''sad'']),
         (''participantId'', Str ''id-1''),
         (''participantName'', Str ''Ann''),
         (''participantJid'', Str ''ann@example'')]\<rparr>"

section \<open>Properties\<close>

lemmas traced_defs =
  ret_def throw_def call_def bind_def try_catch_def logger_warn_def logger_error_def

lemmas webhook_defs = sendFaceExpressionsWebhook_def connection_getJid_def Let_def

lemmas sendDataToWorker_defs =
  sendDataToWorker_def context_drawImage_def context_getImageData_def Let_def

subsection \<open>The display helpers\<close>

lemma getDetectionInterval_eq:
  "getDetectionInterval k state =
     (case faceLandmarks (features_base_config state) of
        None \<Rightarrow> SEND_IMAGE_INTERVAL_MS k
      | Some fl \<Rightarrow> if truthy_number (captureInterval fl) then the (captureInterval fl)
                   else SEND_IMAGE_INTERVAL_MS k)"
  by (simp add: getDetectionInterval_def Math_max_def truthy_number_def split: option.splits)

text \<open>
  C1. The claim reads: the detection interval is the larger of the configured capture interval
  and \<^verbatim>\<open>SEND_IMAGE_INTERVAL_MS\<close>. The code hands \<^verbatim>\<open>Math.max\<close> one argument, the
  configured interval where that is truthy. With a default of 1000 ms and a configured interval
  of 500 ms the function answers 500, which is below the default; \<^verbatim>\<open>Math.max\<close> of the two
  is 1000.
\<close>

theorem getDetectionInterval_below_default:
  "getDetectionInterval example_constants
     (example_state\<lparr>features_base_config :=
        \<lparr>webhookProxyUrl = None,
         faceLandmarks = Some \<lparr>captureInterval = Some (Finite 500)\<rparr>\<rparr>\<rparr>) = Finite 500
   \<and> SEND_IMAGE_INTERVAL_MS example_constants = Finite 1000
   \<and> Math_max (Finite 500) [Finite 1000] = Finite 1000"
  by (simp add: getDetectionInterval_def Math_max_def js_max_def value_of_def truthy_number_def
      example_constants_def)

lemma js_multiply_one:
  assumes "is_double c"
  shows "js_multiply c (Finite 1) = c"
  using assms
  by (cases c)
     (auto simp add: js_multiply_def is_double_def is_negative_def is_zero_def is_infinite_def
        value_of_def signed_zero_def signed_infinity_def)

lemma js_divide_1000_1000: "js_divide (Finite 1000) (Finite 1000) = Finite 1"
  by code_simp

text \<open>
  C9. For every state and every count of consecutive detections, the duration of a face
  expression is the count times the quotient of the detection interval and 1000, in the
  arithmetic of JavaScript numbers. The detection interval is the configured capture interval
  where that is truthy and \<^verbatim>\<open>SEND_IMAGE_INTERVAL_MS\<close> otherwise. With a detection interval
  of 1000 ms the duration is the count itself, for every count; for a count of 3 it is 3.
\<close>

theorem getFaceExpressionDuration_seconds:
  "getFaceExpressionDuration k state faceExpressionCount =
     js_multiply faceExpressionCount (js_divide (getDetectionInterval k state) (Finite 1000))
   \<and> (faceLandmarks (features_base_config state) = Some fl \<and> captureInterval fl = Some c
        \<and> truthy_number (Some c)
      \<longrightarrow> getFaceExpressionDuration k state faceExpressionCount =
            js_multiply faceExpressionCount (js_divide c (Finite 1000)))
   \<and> (faceLandmarks (features_base_config state) = None
        \<or> (faceLandmarks (features_base_config state) = Some fl
            \<and> \<not> truthy_number (captureInterval fl))
      \<longrightarrow> getFaceExpressionDuration k state faceExpressionCount =
            js_multiply faceExpressionCount (js_divide (SEND_IMAGE_INTERVAL_MS k) (Finite 1000)))
   \<and> (getDetectionInterval k state = Finite 1000 \<and> is_double faceExpressionCount
      \<longrightarrow> getFaceExpressionDuration k state faceExpressionCount = faceExpressionCount)
   \<and> (getDetectionInterval k state = Finite 1000
      \<longrightarrow> getFaceExpressionDuration k state (Finite 3) = Finite 3)"
proof -
  have three: "is_double (Finite 3)"
    unfolding is_double_def by code_simp
  have a: "getFaceExpressionDuration k state faceExpressionCount =
     js_multiply faceExpressionCount (js_divide (getDetectionInterval k state) (Finite 1000))"
    by (simp add: getFaceExpressionDuration_def)
  have b: "faceLandmarks (features_base_config state) = Some fl \<and> captureInterval fl = Some c
        \<and> truthy_number (Some c)
      \<longrightarrow> getFaceExpressionDuration k state faceExpressionCount =
            js_multiply faceExpressionCount (js_divide c (Finite 1000))"
    by (simp add: getFaceExpressionDuration_def getDetectionInterval_eq)
  have c: "faceLandmarks (features_base_config state) = None
        \<or> (faceLandmarks (features_base_config state) = Some fl
            \<and> \<not> truthy_number (captureInterval fl))
      \<longrightarrow> getFaceExpressionDuration k state faceExpressionCount =
            js_multiply faceExpressionCount (js_divide (SEND_IMAGE_INTERVAL_MS k) (Finite 1000))"
    by (auto simp add: getFaceExpressionDuration_def getDetectionInterval_eq)
  have d: "getDetectionInterval k state = Finite 1000 \<and> is_double n
      \<longrightarrow> getFaceExpressionDuration k state n = n" for n
    by (simp add: getFaceExpressionDuration_def js_divide_1000_1000 js_multiply_one)
  from a b c d [of faceExpressionCount] d [of "Finite 3"] three show ?thesis
    by blast
qed

theorem getFaceExpressionDuration_seconds_witness:
  "getDetectionInterval example_constants example_state = Finite 1000
   \<and> getFaceExpressionDuration example_constants example_state (Finite 3) = Finite 3
   \<and> is_double (Finite (5 / 2))
   \<and> getFaceExpressionDuration example_constants example_state (Finite (5 / 2)) = Finite (5 / 2)
   \<and> truthy_number (Some (Finite 100))
   \<and> getFaceExpressionDuration example_constants (interval_state (Finite 100)) (Finite 3) =
       Finite (1351079888211149 / 4503599627370496)
   \<and> number_to_string (Finite (1351079888211149 / 4503599627370496)) = ''0.30000000000000004''
   \<and> getFaceExpressionDuration example_constants (interval_state (Finite 0)) (Finite 3) =
       Finite 3"
proof -
  have h: "getDetectionInterval example_constants example_state = Finite 1000"
    by (simp add: getDetectionInterval_eq example_constants_def example_state_def)
  have i: "is_double (Finite (5 / 2))"
    unfolding is_double_def by code_simp
  have t: "truthy_number (Some (Finite 100))"
    and z: "\<not> truthy_number (Some (Finite 0))"
    by (simp_all add: truthy_number_def)
  have s: "faceLandmarks (features_base_config (interval_state x)) =
      Some \<lparr>captureInterval = Some x\<rparr>" for x
    by (simp add: interval_state_def example_state_def)
  have m: "js_multiply (Finite 3) (js_divide (Finite 100) (Finite 1000)) =
      Finite (1351079888211149 / 4503599627370496)"
    by code_simp
  have m0: "js_multiply (Finite 3) (js_divide (Finite 1000) (Finite 1000)) = Finite 3"
    by code_simp
  have p: "number_to_string (Finite (1351079888211149 / 4503599627370496)) =
      ''0.30000000000000004''"
    by code_simp
  note w = getFaceExpressionDuration_seconds [of example_constants]
  from w [of example_state "Finite 3"] h
  have 1: "getFaceExpressionDuration example_constants example_state (Finite 3) = Finite 3"
    by blast
  from w [of example_state "Finite (5 / 2)"] h i
  have 2: "getFaceExpressionDuration example_constants example_state (Finite (5 / 2)) =
      Finite (5 / 2)"
    by blast
  from w [of "interval_state (Finite 100)" "Finite 3" "\<lparr>captureInterval = Some (Finite 100)\<rparr>"
            "Finite 100"]
  have "faceLandmarks (features_base_config (interval_state (Finite 100))) =
          Some \<lparr>captureInterval = Some (Finite 100)\<rparr>
        \<and> captureInterval \<lparr>captureInterval = Some (Finite 100)\<rparr> = Some (Finite 100)
        \<and> truthy_number (Some (Finite 100))
      \<longrightarrow> getFaceExpressionDuration example_constants (interval_state (Finite 100)) (Finite 3) =
            js_multiply (Finite 3) (js_divide (Finite 100) (Finite 1000))"
    by blast
  with s [of "Finite 100"] t
  have "getFaceExpressionDuration example_constants (interval_state (Finite 100)) (Finite 3) =
      js_multiply (Finite 3) (js_divide (Finite 100) (Finite 1000))"
    by simp
  with m
  have 3: "getFaceExpressionDuration example_constants (interval_state (Finite 100)) (Finite 3) =
       Finite (1351079888211149 / 4503599627370496)"
    by simp
  from w [of "interval_state (Finite 0)" "Finite 3" "\<lparr>captureInterval = Some (Finite 0)\<rparr>"]
  have "faceLandmarks (features_base_config (interval_state (Finite 0))) = None
        \<or> (faceLandmarks (features_base_config (interval_state (Finite 0))) =
              Some \<lparr>captureInterval = Some (Finite 0)\<rparr>
            \<and> \<not> truthy_number (captureInterval \<lparr>captureInterval = Some (Finite 0)\<rparr>))
      \<longrightarrow> getFaceExpressionDuration example_constants (interval_state (Finite 0)) (Finite 3) =
            js_multiply (Finite 3)
              (js_divide (SEND_IMAGE_INTERVAL_MS example_constants) (Finite 1000))"
    by blast
  with s [of "Finite 0"] z
  have "getFaceExpressionDuration example_constants (interval_state (Finite 0)) (Finite 3) =
      js_multiply (Finite 3) (js_divide (Finite 1000) (Finite 1000))"
    by (simp add: example_constants_def)
  with m0
  have 4: "getFaceExpressionDuration example_constants (interval_state (Finite 0)) (Finite 3) =
       Finite 3"
    by simp
  from h 1 i 2 t 3 p 4 show ?thesis by blast
qed

text \<open>
  C4. The object position is \<^verbatim>\<open>70% 50%\<close> for a stored face box with \<^verbatim>\<open>right\<close> 80 and
  \<^verbatim>\<open>width\<close> 20; it is \<^verbatim>\<open>50% 50%\<close> where no identifier is given or no box is stored for
  it, where the stored box is empty, and where \<^verbatim>\<open>right\<close> or \<^verbatim>\<open>width\<close> is exactly 0. In
  general, where both are truthy, it is \<^verbatim>\<open>right - width / 2\<close>, computed and written as
  JavaScript computes and writes numbers, followed by \<^verbatim>\<open>% 50%\<close>.
\<close>

theorem getVideoObjectPosition_cases:
  "(pid \<noteq> '''' \<and> getFaceBoxForId pid state = Some fb
      \<and> right fb = Some (Finite 80) \<and> width fb = Some (Finite 20)
      \<longrightarrow> getVideoObjectPosition state (Some pid) = ''70% 50%'')
   \<and> (id_arg = None \<or> id_arg = Some ''''
        \<or> (\<exists>p. id_arg = Some p \<and> getFaceBoxForId p state = None)
      \<longrightarrow> getVideoObjectPosition state id_arg = ''50% 50%'')
   \<and> (getFaceBoxForId pid state = Some fb0 \<and> right fb0 = None \<and> width fb0 = None
      \<longrightarrow> getVideoObjectPosition state (Some pid) = ''50% 50%'')
   \<and> (getFaceBoxForId pid state = Some fbz
        \<and> (right fbz = Some (Finite 0) \<or> width fbz = Some (Finite 0))
      \<longrightarrow> getVideoObjectPosition state (Some pid) = ''50% 50%'')
   \<and> (pid \<noteq> '''' \<and> getFaceBoxForId pid state = Some fbt
        \<and> right fbt = Some r \<and> width fbt = Some w
        \<and> truthy_number (Some r) \<and> truthy_number (Some w)
      \<longrightarrow> getVideoObjectPosition state (Some pid) =
            number_to_string (js_subtract r (js_divide w (Finite 2))) @ ''% 50%'')"
proof -
  have n70: "number_to_string (js_subtract (Finite 80) (js_divide (Finite 20) (Finite 2))) = ''70''"
    by code_simp
  have c1: "pid \<noteq> '''' \<and> getFaceBoxForId pid state = Some fb
      \<and> right fb = Some (Finite 80) \<and> width fb = Some (Finite 20)
      \<longrightarrow> getVideoObjectPosition state (Some pid) = ''70% 50%''"
    by (simp add: getVideoObjectPosition_def truthy_string_def truthy_number_def n70)
  have c2: "id_arg = None \<or> id_arg = Some ''''
        \<or> (\<exists>p. id_arg = Some p \<and> getFaceBoxForId p state = None)
      \<longrightarrow> getVideoObjectPosition state id_arg = ''50% 50%''"
    by (auto simp add: getVideoObjectPosition_def truthy_string_def)
  have c3: "getFaceBoxForId pid state = Some fb0 \<and> right fb0 = None \<and> width fb0 = None
      \<longrightarrow> getVideoObjectPosition state (Some pid) = ''50% 50%''"
    by (simp add: getVideoObjectPosition_def truthy_string_def truthy_number_def)
  have c4: "getFaceBoxForId pid state = Some fbz
        \<and> (right fbz = Some (Finite 0) \<or> width fbz = Some (Finite 0))
      \<longrightarrow> getVideoObjectPosition state (Some pid) = ''50% 50%''"
    by (auto simp add: getVideoObjectPosition_def truthy_string_def truthy_number_def)
  have c5: "pid \<noteq> '''' \<and> getFaceBoxForId pid state = Some fbt
        \<and> right fbt = Some r \<and> width fbt = Some w
        \<and> truthy_number (Some r) \<and> truthy_number (Some w)
      \<longrightarrow> getVideoObjectPosition state (Some pid) =
            number_to_string (js_subtract r (js_divide w (Finite 2))) @ ''% 50%''"
    by (simp add: getVideoObjectPosition_def truthy_string_def)
  from c1 c2 c3 c4 c5 show ?thesis by blast
qed

lemma boxes_state_boxes:
  "getFaceBoxForId ''a'' boxes_state =
     Some \<lparr>left = None, right = Some (Finite 80), width = Some (Finite 20)\<rparr>"
  "getFaceBoxForId ''b'' boxes_state = Some \<lparr>left = None, right = None, width = None\<rparr>"
  "getFaceBoxForId ''c'' boxes_state =
     Some \<lparr>left = Some (Finite 0), right = Some (Finite 0), width = Some (Finite 20)\<rparr>"
  "getFaceBoxForId ''d'' boxes_state =
     Some \<lparr>left = Some (Finite 65), right = Some (Finite 80), width = Some (Finite 15)\<rparr>"
  "getFaceBoxForId ''e'' boxes_state =
     Some \<lparr>left = None, right = Some (Finite (5404319552844595 / 18014398509481984)),
           width = Some (Finite (3602879701896397 / 18014398509481984))\<rparr>"
  "getFaceBoxForId ''f'' boxes_state =
     Some \<lparr>left = None, right = Some (Finite (1 / 524288)),
           width = Some (Finite (1 / 524288))\<rparr>"
  "getFaceBoxForId ''g'' boxes_state =
     Some \<lparr>left = None, right = Some (Finite 1000000000000000000000),
           width = Some (Finite 2)\<rparr>"
  by (simp_all add: getFaceBoxForId_def boxes_state_def)

theorem getVideoObjectPosition_cases_witness:
  "getFaceBoxForId ''a'' boxes_state =
     Some \<lparr>left = None, right = Some (Finite 80), width = Some (Finite 20)\<rparr>
   \<and> getVideoObjectPosition boxes_state (Some ''a'') = ''70% 50%''
   \<and> getVideoObjectPosition boxes_state None = ''50% 50%''
   \<and> getFaceBoxForId ''b'' boxes_state = Some \<lparr>left = None, right = None, width = None\<rparr>
   \<and> getVideoObjectPosition boxes_state (Some ''b'') = ''50% 50%''
   \<and> getFaceBoxForId ''c'' boxes_state =
       Some \<lparr>left = Some (Finite 0), right = Some (Finite 0), width = Some (Finite 20)\<rparr>
   \<and> getVideoObjectPosition boxes_state (Some ''c'') = ''50% 50%''
   \<and> getFaceBoxForId ''d'' boxes_state =
       Some \<lparr>left = Some (Finite 65), right = Some (Finite 80), width = Some (Finite 15)\<rparr>
   \<and> getVideoObjectPosition boxes_state (Some ''d'') = ''72.5% 50%''
   \<and> getVideoObjectPosition boxes_state (Some ''e'') = ''0.19999999999999998% 50%''
   \<and> getVideoObjectPosition boxes_state (Some ''f'') = ''9.5367431640625e-7% 50%''
   \<and> getVideoObjectPosition boxes_state (Some ''g'') = ''1e+21% 50%''"
proof -
  note b = boxes_state_boxes
  have t: "truthy_number (Some (Finite 80))" "truthy_number (Some (Finite 15))"
    "truthy_number (Some (Finite (5404319552844595 / 18014398509481984)))"
    "truthy_number (Some (Finite (3602879701896397 / 18014398509481984)))"
    "truthy_number (Some (Finite (1 / 524288)))"
    "truthy_number (Some (Finite 1000000000000000000000))"
    "truthy_number (Some (Finite 2))"
    by (simp_all add: truthy_number_def)
  have nd: "number_to_string (js_subtract (Finite 80) (js_divide (Finite 15) (Finite 2)))
      = ''72.5''"
    by code_simp
  have ne: "number_to_string
      (js_subtract (Finite (5404319552844595 / 18014398509481984))
         (js_divide (Finite (3602879701896397 / 18014398509481984)) (Finite 2)))
      = ''0.19999999999999998''"
    by code_simp
  have nf: "number_to_string
      (js_subtract (Finite (1 / 524288)) (js_divide (Finite (1 / 524288)) (Finite 2)))
      = ''9.5367431640625e-7''"
    by code_simp
  have ng: "number_to_string
      (js_subtract (Finite 1000000000000000000000) (js_divide (Finite 2) (Finite 2)))
      = ''1e+21''"
    by code_simp
  from getVideoObjectPosition_cases
         [of "''a''" boxes_state
             "\<lparr>left = None, right = Some (Finite 80), width = Some (Finite 20)\<rparr>" None]
       b(1)
  have 1: "getVideoObjectPosition boxes_state (Some ''a'') = ''70% 50%''"
    and 2: "getVideoObjectPosition boxes_state None = ''50% 50%''"
    by simp_all
  from getVideoObjectPosition_cases
         [of "''b''" boxes_state _ _ "\<lparr>left = None, right = None, width = None\<rparr>"] b(2)
  have 3: "getVideoObjectPosition boxes_state (Some ''b'') = ''50% 50%''"
    by simp
  from getVideoObjectPosition_cases
         [of "''c''" boxes_state _ _ _
             "\<lparr>left = Some (Finite 0), right = Some (Finite 0), width = Some (Finite 20)\<rparr>"]
       b(3)
  have 4: "getVideoObjectPosition boxes_state (Some ''c'') = ''50% 50%''"
    by simp
  from getVideoObjectPosition_cases
         [of "''d''" boxes_state _ _ _ _
             "\<lparr>left = Some (Finite 65), right = Some (Finite 80), width = Some (Finite 15)\<rparr>"
             "Finite 80" "Finite 15"]
       b(4) t nd
  have 5: "getVideoObjectPosition boxes_state (Some ''d'') = ''72.5% 50%''"
    by simp
  from getVideoObjectPosition_cases
         [of "''e''" boxes_state _ _ _ _
             "\<lparr>left = None, right = Some (Finite (5404319552844595 / 18014398509481984)),
               width = Some (Finite (3602879701896397 / 18014398509481984))\<rparr>"
             "Finite (5404319552844595 / 18014398509481984)"
             "Finite (3602879701896397 / 18014398509481984)"]
       b(5) t ne
  have 6: "getVideoObjectPosition boxes_state (Some ''e'') = ''0.19999999999999998% 50%''"
    by simp
  from getVideoObjectPosition_cases
         [of "''f''" boxes_state _ _ _ _
             "\<lparr>left = None, right = Some (Finite (1 / 524288)),
               width = Some (Finite (1 / 524288))\<rparr>"
             "Finite (1 / 524288)" "Finite (1 / 524288)"]
       b(6) t nf
  have 7: "getVideoObjectPosition boxes_state (Some ''f'') = ''9.5367431640625e-7% 50%''"
    by simp
  from getVideoObjectPosition_cases
         [of "''g''" boxes_state _ _ _ _
             "\<lparr>left = None, right = Some (Finite 1000000000000000000000),
               width = Some (Finite 2)\<rparr>"
             "Finite 1000000000000000000000" "Finite 2"]
       b(7) t ng
  have 8: "getVideoObjectPosition boxes_state (Some ''g'') = ''1e+21% 50%''"
    by simp
  from b(1) 1 2 b(2) 3 b(3) 4 b(4) 5 6 7 8 show ?thesis by blast
qed

subsection \<open>Sending to the participants and to the server\<close>

text \<open>
  C8. For every conference argument and every payload, none of the three send functions lets
  an exception escape: each returns normally. Where the send primitive throws (or the
  conference argument is missing, so that the method call itself throws), the function has
  made that one call, logs one warning that carries the error, and returns.
\<close>

theorem broadcaster_swallows_errors:
  "fst (sendFaceExpressionToParticipants conference faceExpression duration) = Inr ()
   \<and> fst (sendFaceBoxToParticipants k conference faceBox) = Inr ()
   \<and> fst (sendFaceExpressionToServer conference faceExpression duration) = Inr ()
   \<and> (conference_sendEndpointMessage conference ''''
         (FaceExpressionMessage ''face_landmark'' faceExpression duration) = (Inl err1, tr1)
      \<longrightarrow> sendFaceExpressionToParticipants conference faceExpression duration =
            (Inr (), tr1 @ [LoggerWarn
               [Str ''Could not broadcast the face expression to the other participants'',
                Err err1]]))
   \<and> (conference_sendEndpointMessage conference ''''
         (FaceBoxMessage (FACE_BOX_EVENT_TYPE k) faceBox) = (Inl err2, tr2)
      \<longrightarrow> sendFaceBoxToParticipants k conference faceBox =
            (Inr (), tr2 @ [LoggerWarn
               [Str ''Could not broadcast the face box to the other participants'', Err err2]]))
   \<and> (conference_sendFaceLandmarks conference (FaceLandmarksReport faceExpression duration)
         = (Inl err3, tr3)
      \<longrightarrow> sendFaceExpressionToServer conference faceExpression duration =
            (Inr (), tr3 @ [LoggerWarn
               [Str ''Could not send the face expression to xmpp server'', Err err3]]))"
proof -
  have never: "fst (try_catch m (\<lambda>err. logger_warn (args err))) = Inr ()"
    for m :: "unit traced" and args
    by (cases m; cases "fst m") (auto simp add: try_catch_def logger_warn_def call_def)
  have caught: "m = (Inl e, tr) \<longrightarrow>
      try_catch m (\<lambda>err. logger_warn (args err)) = (Inr (), tr @ [LoggerWarn (args e)])"
    for m :: "unit traced" and e tr args
    by (simp add: try_catch_def logger_warn_def call_def)
  show ?thesis
    unfolding sendFaceExpressionToParticipants_def sendFaceBoxToParticipants_def
      sendFaceExpressionToServer_def
    by (intro conjI never caught)
qed

theorem broadcaster_swallows_errors_witness:
  "conference_sendEndpointMessage (Some failing_conference) ''''
       (FaceExpressionMessage ''face_landmark'' ''happy'' (Finite 3)) =
     (Inl (Thrown ''not connected''),
      [ConferenceSendEndpointMessage '''' (FaceExpressionMessage ''face_landmark'' ''happy'' (Finite 3))])
   \<and> sendFaceExpressionToParticipants (Some failing_conference) ''happy'' (Finite 3) =
     (Inr (),
      [ConferenceSendEndpointMessage '''' (FaceExpressionMessage ''face_landmark'' ''happy'' (Finite 3)),
       LoggerWarn [Str ''Could not broadcast the face expression to the other participants'',
                   Err (Thrown ''not connected'')]])
   \<and> sendFaceBoxToParticipants example_constants (Some failing_conference)
       \<lparr>left = Some (Finite 60), right = Some (Finite 80), width = Some (Finite 20)\<rparr> =
     (Inr (),
      [ConferenceSendEndpointMessage ''''
         (FaceBoxMessage ''face-box'' \<lparr>left = Some (Finite 60), right = Some (Finite 80), width = Some (Finite 20)\<rparr>),
       LoggerWarn [Str ''Could not broadcast the face box to the other participants'',
                   Err (Thrown ''not connected'')]])
   \<and> sendFaceExpressionToServer (Some failing_conference) ''happy'' (Finite 3) =
     (Inr (),
      [ConferenceSendFaceLandmarks (FaceLandmarksReport ''happy'' (Finite 3)),
       LoggerWarn [Str ''Could not send the face expression to xmpp server'',
                   Err (Thrown ''not connected'')]])
   \<and> sendFaceExpressionToServer None ''happy'' (Finite 3) =
     (Inr (),
      [LoggerWarn [Str ''Could not send the face expression to xmpp server'', Err TypeError]])"
proof -
  have h1: "conference_sendEndpointMessage (Some failing_conference) ''''
       (FaceExpressionMessage ''face_landmark'' ''happy'' (Finite 3)) =
     (Inl (Thrown ''not connected''),
      [ConferenceSendEndpointMessage '''' (FaceExpressionMessage ''face_landmark'' ''happy'' (Finite 3))])"
    by (simp add: conference_sendEndpointMessage_def call_def failing_conference_def)
  have h2: "conference_sendEndpointMessage (Some failing_conference) ''''
       (FaceBoxMessage (FACE_BOX_EVENT_TYPE example_constants)
          \<lparr>left = Some (Finite 60), right = Some (Finite 80), width = Some (Finite 20)\<rparr>) =
     (Inl (Thrown ''not connected''),
      [ConferenceSendEndpointMessage ''''
         (FaceBoxMessage ''face-box'' \<lparr>left = Some (Finite 60), right = Some (Finite 80), width = Some (Finite 20)\<rparr>)])"
    by (simp add: conference_sendEndpointMessage_def call_def failing_conference_def
        example_constants_def)
  have h3: "conference_sendFaceLandmarks (Some failing_conference)
       (FaceLandmarksReport ''happy'' (Finite 3)) =
     (Inl (Thrown ''not connected''),
      [ConferenceSendFaceLandmarks (FaceLandmarksReport ''happy'' (Finite 3))])"
    by (simp add: conference_sendFaceLandmarks_def call_def failing_conference_def)
  have h4: "conference_sendFaceLandmarks None (FaceLandmarksReport ''happy'' (Finite 3)) =
     (Inl TypeError, [])"
    by (simp add: conference_sendFaceLandmarks_def throw_def)
  note t = broadcaster_swallows_errors
    [of "Some failing_conference" "''happy''" "Finite 3" example_constants
        "\<lparr>left = Some (Finite 60), right = Some (Finite 80), width = Some (Finite 20)\<rparr>"]
  note n = broadcaster_swallows_errors [of None "''happy''" "Finite 3"]
  from t h1 have 1: "sendFaceExpressionToParticipants (Some failing_conference) ''happy'' (Finite 3) =
     (Inr (),
      [ConferenceSendEndpointMessage '''' (FaceExpressionMessage ''face_landmark'' ''happy'' (Finite 3)),
       LoggerWarn [Str ''Could not broadcast the face expression to the other participants'',
                   Err (Thrown ''not connected'')]])"
    by simp
  from t h2 have 2: "sendFaceBoxToParticipants example_constants (Some failing_conference)
       \<lparr>left = Some (Finite 60), right = Some (Finite 80), width = Some (Finite 20)\<rparr> =
     (Inr (),
      [ConferenceSendEndpointMessage ''''
         (FaceBoxMessage ''face-box'' \<lparr>left = Some (Finite 60), right = Some (Finite 80), width = Some (Finite 20)\<rparr>),
       LoggerWarn [Str ''Could not broadcast the face box to the other participants'',
                   Err (Thrown ''not connected'')]])"
    by (simp add: example_constants_def)
  from t h3 have 3: "sendFaceExpressionToServer (Some failing_conference) ''happy'' (Finite 3) =
     (Inr (),
      [ConferenceSendFaceLandmarks (FaceLandmarksReport ''happy'' (Finite 3)),
       LoggerWarn [Str ''Could not send the face expression to xmpp server'',
                   Err (Thrown ''not connected'')]])"
    by simp
  from n h4 have 4: "sendFaceExpressionToServer None ''happy'' (Finite 3) =
     (Inr (),
      [LoggerWarn [Str ''Could not send the face expression to xmpp server'', Err TypeError]])"
    by simp
  from h1 1 2 3 4 show ?thesis by blast
qed

subsection \<open>Sending to the webhook\<close>

lemma webhook_state_run:
  "sendFaceExpressionsWebhook example_env webhook_state =
     (Inr False,
      [ConnectionGetJid, GetLocalParticipant, ExtractFqnFromPath, DateNow,
       Fetch (example_request
                [(''Authorization'', ''Bearer abc''), (''Content-Type'', ''application/json'')]),
       LoggerError [Str ''Status error:'', Num (Finite 500)]])"
  by (simp add: webhook_defs traced_defs truthy_string_def Date_now_def optional_string_def
      optional_chain_def example_env_def webhook_state_def example_request_def)

lemma webhook_state_run_no_jwt:
  "sendFaceExpressionsWebhook (example_env\<lparr>fetch := (\<lambda>_. Inr \<lparr>ok = True, status = Finite 200\<rparr>)\<rparr>)
       (webhook_state\<lparr>features_base_jwt := None\<rparr>) =
     (Inr True,
      [ConnectionGetJid, GetLocalParticipant, ExtractFqnFromPath, DateNow,
       Fetch (example_request [(''Content-Type'', ''application/json'')])])"
  by (simp add: webhook_defs traced_defs truthy_string_def Date_now_def optional_string_def
      optional_chain_def example_env_def webhook_state_def example_request_def)

text \<open>
  C5. Every request that the webhook function issues carries the header
  \<^verbatim>\<open>Content-Type: application/json\<close>. Where a token is present (a non-empty string) the
  header \<^verbatim>\<open>Authorization\<close> is exactly \<^verbatim>\<open>Bearer\<close>, a space and the token; where no
  token is present (\<^verbatim>\<open>undefined\<close>, or the empty string, which is falsy) the request has no
  \<^verbatim>\<open>Authorization\<close> header at all.
\<close>

theorem sendFaceExpressionsWebhook_headers:
  "req \<in> set (requests (snd (sendFaceExpressionsWebhook env state)))
   \<longrightarrow> map_of (headers req) ''Content-Type'' = Some ''application/json''
       \<and> (features_base_jwt state = Some token \<and> token \<noteq> ''''
          \<longrightarrow> map_of (headers req) ''Authorization'' = Some (''Bearer '' @ token))
       \<and> (features_base_jwt state = None \<or> features_base_jwt state = Some ''''
          \<longrightarrow> ''Authorization'' \<notin> fst ` set (headers req))"
  by (cases "features_base_connection state")
     (auto simp add: webhook_defs traced_defs truthy_string_def
        split: sum.splits option.splits if_splits)

theorem sendFaceExpressionsWebhook_headers_witness:
  "example_request [(''Authorization'', ''Bearer abc''), (''Content-Type'', ''application/json'')]
     \<in> set (requests (snd (sendFaceExpressionsWebhook example_env webhook_state)))
   \<and> map_of (headers (example_request
        [(''Authorization'', ''Bearer abc''), (''Content-Type'', ''application/json'')]))
        ''Authorization'' = Some ''Bearer abc''
   \<and> example_request [(''Content-Type'', ''application/json'')]
     \<in> set (requests (snd (sendFaceExpressionsWebhook
               (example_env\<lparr>fetch := (\<lambda>_. Inr \<lparr>ok = True, status = Finite 200\<rparr>)\<rparr>)
               (webhook_state\<lparr>features_base_jwt := None\<rparr>))))
   \<and> ''Authorization'' \<notin> fst ` set (headers (example_request
        [(''Content-Type'', ''application/json'')]))"
proof -
  let ?r1 = "example_request
     [(''Authorization'', ''Bearer abc''), (''Content-Type'', ''application/json'')]"
  let ?r2 = "example_request [(''Content-Type'', ''application/json'')]"
  have m1: "?r1 \<in> set (requests (snd (sendFaceExpressionsWebhook example_env webhook_state)))"
    by (simp add: webhook_state_run)
  have m2: "?r2 \<in> set (requests (snd (sendFaceExpressionsWebhook
               (example_env\<lparr>fetch := (\<lambda>_. Inr \<lparr>ok = True, status = Finite 200\<rparr>)\<rparr>)
               (webhook_state\<lparr>features_base_jwt := None\<rparr>))))"
    by (simp add: webhook_state_run_no_jwt)
  have j1: "features_base_jwt webhook_state = Some ''abc''"
    by (simp add: webhook_state_def)
  from sendFaceExpressionsWebhook_headers [of ?r1 example_env webhook_state "''abc''"] m1 j1
  have 1: "map_of (headers ?r1) ''Authorization'' = Some ''Bearer abc''"
    by simp
  from sendFaceExpressionsWebhook_headers
         [of ?r2 "example_env\<lparr>fetch := (\<lambda>_. Inr \<lparr>ok = True, status = Finite 200\<rparr>)\<rparr>"
             "webhook_state\<lparr>features_base_jwt := None\<rparr>"] m2
  have 2: "''Authorization'' \<notin> fst ` set (headers ?r2)"
    by simp
  from m1 1 m2 2 show ?thesis by blast
qed

text \<open>
  C6. With an empty buffer the webhook function returns \<^verbatim>\<open>false\<close>, issues no request and
  returns before the request is constructed (neither \<^verbatim>\<open>extractFqnFromPath\<close> nor
  \<^verbatim>\<open>Date.now\<close> is called). Without a configured URL it returns \<^verbatim>\<open>false\<close> and issues no
  request; if the buffer is not empty, the body has been constructed by then.
\<close>

theorem sendFaceExpressionsWebhook_not_sent:
  "(faceExpressionsBuffer (features_face_landmarks state) = []
      \<longrightarrow> fst (sendFaceExpressionsWebhook env state) = Inr False
          \<and> requests (snd (sendFaceExpressionsWebhook env state)) = []
          \<and> ExtractFqnFromPath \<notin> set (snd (sendFaceExpressionsWebhook env state))
          \<and> DateNow \<notin> set (snd (sendFaceExpressionsWebhook env state)))
   \<and> (\<not> truthy_string (webhookProxyUrl (features_base_config state))
      \<longrightarrow> fst (sendFaceExpressionsWebhook env state) = Inr False
          \<and> requests (snd (sendFaceExpressionsWebhook env state)) = [])
   \<and> (faceExpressionsBuffer (features_face_landmarks state) \<noteq> []
        \<and> \<not> truthy_string (webhookProxyUrl (features_base_config state))
      \<longrightarrow> ExtractFqnFromPath \<in> set (snd (sendFaceExpressionsWebhook env state))
          \<and> DateNow \<in> set (snd (sendFaceExpressionsWebhook env state)))"
  by (cases "features_base_connection state")
     (auto simp add: webhook_defs traced_defs split: sum.splits option.splits if_splits)

theorem sendFaceExpressionsWebhook_not_sent_witness:
  "faceExpressionsBuffer (features_face_landmarks example_state) = []
   \<and> \<not> truthy_string (webhookProxyUrl (features_base_config example_state))
   \<and> sendFaceExpressionsWebhook example_env example_state = (Inr False, [GetLocalParticipant])
   \<and> faceExpressionsBuffer (features_face_landmarks
        (webhook_state\<lparr>features_base_config := \<lparr>webhookProxyUrl = None, faceLandmarks = None\<rparr>\<rparr>))
       \<noteq> []
   \<and> fst (sendFaceExpressionsWebhook example_env
        (webhook_state\<lparr>features_base_config := \<lparr>webhookProxyUrl = None, faceLandmarks = None\<rparr>\<rparr>))
       = Inr False
   \<and> requests (snd (sendFaceExpressionsWebhook example_env
        (webhook_state\<lparr>features_base_config := \<lparr>webhookProxyUrl = None, faceLandmarks = None\<rparr>\<rparr>)))
       = []
   \<and> DateNow \<in> set (snd (sendFaceExpressionsWebhook example_env
        (webhook_state\<lparr>features_base_config := \<lparr>webhookProxyUrl = None, faceLandmarks = None\<rparr>\<rparr>)))"
proof -
  let ?s = "webhook_state\<lparr>features_base_config := \<lparr>webhookProxyUrl = None, faceLandmarks = None\<rparr>\<rparr>"
  have e: "faceExpressionsBuffer (features_face_landmarks example_state) = []"
    and u: "\<not> truthy_string (webhookProxyUrl (features_base_config example_state))"
    by (simp_all add: example_state_def truthy_string_def)
  have b: "faceExpressionsBuffer (features_face_landmarks ?s) \<noteq> []"
    and v: "\<not> truthy_string (webhookProxyUrl (features_base_config ?s))"
    by (simp_all add: webhook_state_def truthy_string_def)
  have run: "snd (sendFaceExpressionsWebhook example_env example_state) = [GetLocalParticipant]"
    by (simp add: webhook_defs traced_defs example_state_def)
  from sendFaceExpressionsWebhook_not_sent [of example_state example_env] e
  have 1: "fst (sendFaceExpressionsWebhook example_env example_state) = Inr False"
    by simp
  from 1 run have 2: "sendFaceExpressionsWebhook example_env example_state
      = (Inr False, [GetLocalParticipant])"
    by (simp add: prod_eq_iff)
  from sendFaceExpressionsWebhook_not_sent [of ?s example_env] b v
  have 3: "fst (sendFaceExpressionsWebhook example_env ?s) = Inr False"
    and 4: "requests (snd (sendFaceExpressionsWebhook example_env ?s)) = []"
    and 5: "DateNow \<in> set (snd (sendFaceExpressionsWebhook example_env ?s))"
    by simp_all
  from e u 2 b 3 4 5 show ?thesis by blast
qed

text \<open>
  C7. With a buffer that is not empty and a configured URL the webhook function issues exactly
  one request, a POST to the URL followed by \<^verbatim>\<open>/emotions\<close>, whose body holds the buffer
  unchanged under \<^verbatim>\<open>emotions\<close> and under \<^verbatim>\<open>submitted\<close> a time not before the call. It
  returns \<^verbatim>\<open>true\<close> exactly when \<^verbatim>\<open>fetch\<close> answers with a response that is \<^verbatim>\<open>ok\<close>;
  otherwise it logs one error (the status, or the transport error) and returns \<^verbatim>\<open>false\<close>.
  In every case the trace holds that one request and no second one.
\<close>

theorem sendFaceExpressionsWebhook_sent:
  "faceExpressionsBuffer (features_face_landmarks state) \<noteq> []
     \<and> webhookProxyUrl (features_base_config state) = Some u \<and> u \<noteq> ''''
   \<longrightarrow> (\<exists>req t.
          requests (snd (sendFaceExpressionsWebhook env state)) = [req]
          \<and> url req = u @ ''/emotions'' \<and> http_method req = ''POST''
          \<and> map_of (body req) ''emotions'' =
              Some (Arr (faceExpressionsBuffer (features_face_landmarks state)))
          \<and> map_of (body req) ''submitted'' = Some (Num (Finite t)) \<and> of_nat (call_time env) \<le> t
          \<and> fst (sendFaceExpressionsWebhook env state) =
              Inr (case fetch env req of Inl _ \<Rightarrow> False | Inr res \<Rightarrow> ok res)
          \<and> errors (snd (sendFaceExpressionsWebhook env state)) =
              (case fetch env req of
                 Inl err \<Rightarrow> [[Str ''Could not send request'', Err err]]
               | Inr res \<Rightarrow> if ok res then [] else [[Str ''Status error:'', Num (status res)]]))"
  by (cases "features_base_connection state")
     (auto simp add: webhook_defs traced_defs truthy_string_def Date_now_def
        split: sum.splits option.splits if_splits)

theorem sendFaceExpressionsWebhook_sent_witness:
  "faceExpressionsBuffer (features_face_landmarks webhook_state) = [Str ''happy'', Str ''sad'']
   \<and> webhookProxyUrl (features_base_config webhook_state) = Some ''https://hook''
   \<and> (\<exists>req t. requests (snd (sendFaceExpressionsWebhook example_env webhook_state)) = [req]
         \<and> url req = ''https://hook/emotions''
         \<and> map_of (body req) ''emotions'' = Some (Arr [Str ''happy'', Str ''sad''])
         \<and> map_of (body req) ''submitted'' = Some (Num (Finite t)) \<and> 1000 \<le> t)
   \<and> fst (sendFaceExpressionsWebhook example_env webhook_state) = Inr False
   \<and> errors (snd (sendFaceExpressionsWebhook example_env webhook_state)) =
       [[Str ''Status error:'', Num (Finite 500)]]"
proof -
  have b: "faceExpressionsBuffer (features_face_landmarks webhook_state)
      = [Str ''happy'', Str ''sad'']"
    and u: "webhookProxyUrl (features_base_config webhook_state) = Some ''https://hook''"
    by (simp_all add: webhook_state_def)
  have f: "fetch example_env req = Inr \<lparr>ok = False, status = Finite 500\<rparr>" for req
    by (simp add: example_env_def)
  have c: "call_time example_env = 1000"
    by (simp add: example_env_def)
  from sendFaceExpressionsWebhook_sent [of webhook_state "''https://hook''" example_env] b u
  obtain req t where
    r: "requests (snd (sendFaceExpressionsWebhook example_env webhook_state)) = [req]"
      "url req = ''https://hook/emotions''"
      "map_of (body req) ''emotions'' = Some (Arr [Str ''happy'', Str ''sad''])"
      "map_of (body req) ''submitted'' = Some (Num (Finite t))" "1000 \<le> t"
    and o: "fst (sendFaceExpressionsWebhook example_env webhook_state) = Inr False"
      "errors (snd (sendFaceExpressionsWebhook example_env webhook_state)) =
         [[Str ''Status error:'', Num (Finite 500)]]"
    by (auto simp add: f c)
  from b u r o show ?thesis by blast
qed

subsection \<open>Sending a frame to the worker\<close>

text \<open>
  What happens after a frame has been grabbed: one message is posted; if the worker accepts
  it, the bitmap is closed once and the answer is \<^verbatim>\<open>true\<close>; if \<^verbatim>\<open>postMessage\<close> throws,
  the error leaves the function and the bitmap is not closed.
\<close>

lemma sendDataToWorker_hand_off:
  assumes "grabFrame ic = Inr b"
  shows "\<exists>msg. posted (snd (sendDataToWorker k m worker (Some ic) t)) = [msg]
     \<and> (case postMessage worker msg of
           Inl e \<Rightarrow> fst (sendDataToWorker k m worker (Some ic) t) = Inl e
                    \<and> closed (snd (sendDataToWorker k m worker (Some ic) t)) = []
         | Inr _ \<Rightarrow> fst (sendDataToWorker k m worker (Some ic) t) = Inr True
                    \<and> closed (snd (sendDataToWorker k m worker (Some ic) t)) = [b])"
  using assms
  by (cases "OffscreenCanvas_undefined m"; cases "context2d m")
     (auto simp add: sendDataToWorker_defs traced_defs split: sum.splits option.splits)

text \<open>
  C2. The claim reads: when \<^verbatim>\<open>postMessage\<close> fails, \<^verbatim>\<open>sendDataToWorker\<close> does not pass the
  failure on to its caller. In the code the call stands outside the \<^verbatim>\<open>try\<close> block: with a
  worker whose \<^verbatim>\<open>postMessage\<close> throws, the promise is rejected with that error, on the
  direct path and on the raster path alike.
\<close>

theorem sendDataToWorker_postMessage_error_escapes:
  "fst (sendDataToWorker example_constants (module_init False None) failing_worker
          (Some example_capture) None) = Inl (Thrown ''DataCloneError'')
   \<and> fst (sendDataToWorker example_constants (module_init True (Some CanvasRenderingContext2D))
          failing_worker (Some example_capture) None) = Inl (Thrown ''DataCloneError'')"
  by (simp add: sendDataToWorker_defs traced_defs module_init_def failing_worker_def
      example_capture_def)

text \<open>
  C3. The claim reads: a grabbed bitmap is closed exactly once, on both paths, whether the
  hand-off succeeds or fails. With a worker whose \<^verbatim>\<open>postMessage\<close> throws, the bitmap is not
  closed at all, on either path; with a worker that accepts the message it is closed once, on
  either path.
\<close>

theorem sendDataToWorker_bitmap_left_open:
  "closed (snd (sendDataToWorker example_constants (module_init False None) failing_worker
          (Some example_capture) None)) = []
   \<and> closed (snd (sendDataToWorker example_constants
          (module_init True (Some CanvasRenderingContext2D)) failing_worker
          (Some example_capture) None)) = []
   \<and> closed (snd (sendDataToWorker example_constants (module_init False None) accepting_worker
          (Some example_capture) None)) = [example_bitmap]
   \<and> closed (snd (sendDataToWorker example_constants
          (module_init True (Some CanvasRenderingContext2D)) accepting_worker
          (Some example_capture) None)) = [example_bitmap]"
  by (simp add: sendDataToWorker_defs traced_defs module_init_def failing_worker_def
      accepting_worker_def example_capture_def)

text \<open>
  C10. On the raster path (\<^verbatim>\<open>OffscreenCanvas\<close> undefined) with no 2D context, and a frame
  grabbed, the one message that \<^verbatim>\<open>sendDataToWorker\<close> posts has an undefined image, whatever
  the worker does with it; where the worker's \<^verbatim>\<open>postMessage\<close> returns normally, nothing is
  drawn or read, the bitmap is closed and the answer is \<^verbatim>\<open>true\<close>.
\<close>

theorem sendDataToWorker_without_context:
  "OffscreenCanvas_undefined m \<and> context2d m = None \<and> grabFrame ic = Inr b
   \<longrightarrow> posted (snd (sendDataToWorker k m worker (Some ic) t)) =
         [WorkerMessage (DETECT_FACE k) None (case t of None \<Rightarrow> Finite 10 | Some th \<Rightarrow> th)]
       \<and> (postMessage worker
            (WorkerMessage (DETECT_FACE k) None (case t of None \<Rightarrow> Finite 10 | Some th \<Rightarrow> th)) = Inr ()
          \<longrightarrow> sendDataToWorker k m worker (Some ic) t =
                (Inr True,
                 [GrabFrame, CanvasSetWidth (bitmap_width b), CanvasSetHeight (bitmap_height b),
                  PostMessage (WorkerMessage (DETECT_FACE k) None
                                 (case t of None \<Rightarrow> Finite 10 | Some th \<Rightarrow> th)),
                  BitmapClose b]))"
  by (auto simp add: sendDataToWorker_defs traced_defs split: sum.splits option.splits)

theorem sendDataToWorker_without_context_witness:
  "OffscreenCanvas_undefined (module_init True None)
   \<and> context2d (module_init True None) = None
   \<and> grabFrame example_capture = Inr example_bitmap
   \<and> postMessage accepting_worker (WorkerMessage ''detect-face'' None (Finite 10)) = Inr ()
   \<and> posted (snd (sendDataToWorker example_constants (module_init True None) accepting_worker
                    (Some example_capture) None)) = [WorkerMessage ''detect-face'' None (Finite 10)]
   \<and> fst (sendDataToWorker example_constants (module_init True None) accepting_worker
            (Some example_capture) None) = Inr True"
proof -
  have h: "OffscreenCanvas_undefined (module_init True None)
      \<and> context2d (module_init True None) = None
      \<and> grabFrame example_capture = Inr example_bitmap"
    by (simp add: module_init_def example_capture_def)
  have p: "postMessage accepting_worker (WorkerMessage ''detect-face'' None (Finite 10)) = Inr ()"
    by (simp add: accepting_worker_def)
  have d: "DETECT_FACE example_constants = ''detect-face''"
    by (simp add: example_constants_def)
  from sendDataToWorker_without_context
         [of "module_init True None" example_capture example_bitmap example_constants
             accepting_worker None] h p d
  show ?thesis by simp
qed

text \<open>
  The answer in that environment is not \<^verbatim>\<open>true\<close> for every worker: with a worker whose
  \<^verbatim>\<open>postMessage\<close> throws, the message with the undefined image is posted and the promise
  is rejected.
\<close>

theorem sendDataToWorker_without_context_counterexample:
  "OffscreenCanvas_undefined (module_init True None)
   \<and> context2d (module_init True None) = None
   \<and> grabFrame example_capture = Inr example_bitmap
   \<and> posted (snd (sendDataToWorker example_constants (module_init True None) failing_worker
                    (Some example_capture) None)) =
       [WorkerMessage ''detect-face'' None (Finite 10)]
   \<and> fst (sendDataToWorker example_constants (module_init True None) failing_worker
            (Some example_capture) None) = Inl (Thrown ''DataCloneError'')
   \<and> fst (sendDataToWorker example_constants (module_init True None) failing_worker
            (Some example_capture) None) \<noteq> Inr True"
  by (simp add: sendDataToWorker_defs traced_defs module_init_def failing_worker_def
      example_capture_def example_constants_def)

end
